theory Spec2Isabelle
  imports Main "HOL-Library.AList"
begin

section \<open>Agentic structured extraction: a model of \<open>agentic_idp.py\<close>\<close>

text \<open>
  The development follows \<open>idp_common/extraction/agentic_idp.py\<close>. The language model, the
  Pydantic schema and the \<open>jsonpatch\<close> package are outside the module: the schema is the
  pair of functions \<open>data_format\<close> (the constructor \<open>data_format(**d)\<close>, which raises on an
  invalid mapping) and \<open>model_dump\<close>; one JSON-Patch operation is the function \<open>op_apply\<close>;
  the model is a script \<open>env\<close> giving, for the k-th call of \<open>agent.invoke_async\<close>, the tool
  calls it makes and how the call ends.
\<close>

subsection \<open>Strings\<close>

text \<open>Python's \<open>needle in haystack\<close> on strings.\<close>

fun starts_with :: "string \<Rightarrow> string \<Rightarrow> bool" where
  "starts_with [] s = True"
| "starts_with (p # ps) [] = False"
| "starts_with (p # ps) (c # cs) = (p = c \<and> starts_with ps cs)"

fun py_in :: "string \<Rightarrow> string \<Rightarrow> bool" where
  "py_in needle [] = (needle = [])"
| "py_in needle (c # cs) = (starts_with needle (c # cs) \<or> py_in needle cs)"

text \<open>
  \<open>str.lower()\<close> on 8-bit strings: \<open>A..Z\<close> are folded, every other character is left
  as it is (the other characters of this range never fold to an ASCII letter, and the
  patterns searched below are ASCII). Python strings are Unicode, and \<open>str.lower()\<close> also
  sends a few code points beyond this range to ASCII letters (U+212A, the Kelvin sign, to
  \<open>k\<close>); identifiers with such characters are outside the string type used here.
\<close>

definition lower_char :: "char \<Rightarrow> char" where
  "lower_char c =
     (if 65 \<le> (of_char c :: nat) \<and> (of_char c :: nat) \<le> 90
      then char_of ((of_char c :: nat) + 32) else c)"

definition lower :: "string \<Rightarrow> string" where
  "lower s = map lower_char s"

subsection \<open>Capability detection and the output-token clamp (lines 435-466)\<close>

text \<open>
  \<open>re.search(r"claude-(opus|sonnet|haiku)-4", s)\<close>: the expression has no anchors and no
  repetition, so it matches exactly when one of its three alternatives occurs in \<open>s\<close>.
\<close>

definition re_search_claude_4 :: "string \<Rightarrow> bool" where
  "re_search_claude_4 s =
     list_ex (\<lambda>tier. py_in (''claude-'' @ tier @ ''-4'') s) [''opus'', ''sonnet'', ''haiku'']"

definition any_nova :: "string \<Rightarrow> bool" where
  "any_nova s =
     list_ex (\<lambda>nova. py_in nova s) [''nova-premier'', ''nova-pro'', ''nova-lite'', ''nova-micro'']"

definition model_max :: "string \<Rightarrow> int" where
  "model_max model_id =
     (let model_id_lower = lower model_id in
      if re_search_claude_4 model_id_lower then 64000
      else if any_nova model_id_lower then 10000
      else if py_in ''claude-3'' model_id_lower then 8192
      else 4096)"

definition max_output_tokens :: "string \<Rightarrow> int option \<Rightarrow> int" where
  "max_output_tokens model_id max_tokens =
     (case max_tokens of
        Some t \<Rightarrow> if t > model_max model_id then model_max model_id else t
      | None \<Rightarrow> model_max model_id)"

subsection \<open>JSON values and the agent state\<close>

datatype json =
    JNull
  | JBool bool
  | JInt int
  | JStr string
  | JArr "json list"
  | JObj "(string \<times> json) list"

text \<open>
  A Python \<open>dict\<close> with string keys, in insertion order. The only comparisons the module
  makes on the stored extraction are its truthiness and an inequality against a stored value
  that is \<open>None\<close> or empty, where the order of the keys plays no part.
\<close>

type_synonym dict = "(string \<times> json) list"

text \<open>
  \<open>agent.state\<close>: the key \<open>current_extraction\<close> holds \<open>None\<close> or a dict, the key
  \<open>existing_data\<close> the dump of the caller's record. \<open>AgentState.get\<close> and \<open>set\<close> copy
  the value, so a tool never holds an alias of the stored dict.
\<close>

record agent_state =
  current_extraction :: "dict option"
  existing_data_dump :: "dict option"

text \<open>Truthiness of a \<open>Dict | None\<close>: \<open>None\<close> and \<open>{}\<close> are false.\<close>

definition truthy :: "dict option \<Rightarrow> bool" where
  "truthy d = (case d of None \<Rightarrow> False | Some kvs \<Rightarrow> kvs \<noteq> [])"

subsection \<open>The tools (lines 159-256)\<close>

text \<open>
  What a tool hands back to the model. An exception raised inside a tool does not leave the
  exchange: the agent framework reports it to the model as a failed tool call.
\<close>

datatype tool_result =
    ToolText string
  | ToolDict dict
  | ToolState "dict option"
  | ToolException string

text \<open>
  \<open>JsonPatch(patches).apply(obj)\<close>: the operations in order on a deep copy of \<open>obj\<close>
  (\<open>in_place\<close> is false); the first one that raises ends the call. The call succeeds
  exactly when every operation does; which message a failing call carries plays no part
  below.
\<close>

fun JsonPatch_apply :: "(dict \<Rightarrow> json \<Rightarrow> string + json) \<Rightarrow> dict list \<Rightarrow> json \<Rightarrow> string + json" where
  "JsonPatch_apply op_apply [] obj = Inr obj"
| "JsonPatch_apply op_apply (p # ps) obj =
     (case op_apply p obj of
        Inl e \<Rightarrow> Inl e
      | Inr obj' \<Rightarrow> JsonPatch_apply op_apply ps obj')"

definition apply_patches_to_data ::
  "(dict \<Rightarrow> json \<Rightarrow> string + json) \<Rightarrow> dict \<Rightarrow> dict list \<Rightarrow> string + json" where
  "apply_patches_to_data op_apply existing_data patches =
     (if patches = [] then Inr (JObj existing_data)
      else JsonPatch_apply op_apply patches (JObj existing_data))"

definition extraction_tool ::
  "(json \<Rightarrow> string + 'r) \<Rightarrow> ('r \<Rightarrow> dict) \<Rightarrow> json \<Rightarrow> agent_state \<Rightarrow> tool_result \<times> agent_state" where
  "extraction_tool data_format model_dump extraction st =
     (case data_format extraction of
        Inl e \<Rightarrow> (ToolException e, st)
      | Inr extraction_model \<Rightarrow>
          (ToolText ''Extraction succeeded, the data format is correct'',
           st\<lparr>current_extraction := Some (model_dump extraction_model)\<rparr>))"

definition apply_json_patches ::
  "(json \<Rightarrow> string + 'r) \<Rightarrow> ('r \<Rightarrow> dict) \<Rightarrow> (dict \<Rightarrow> json \<Rightarrow> string + json) \<Rightarrow>
   dict list \<Rightarrow> agent_state \<Rightarrow> tool_result \<times> agent_state" where
  "apply_json_patches data_format model_dump op_apply patches st =
     (case current_extraction st of
        None \<Rightarrow> (ToolDict [(''error'', JStr ''No current extraction to patch'')], st)
      | Some current_data \<Rightarrow>
          if \<not> truthy (Some current_data)
          then (ToolDict [(''error'', JStr ''No current extraction to patch'')], st)
          else
            (case apply_patches_to_data op_apply current_data patches of
               Inl e \<Rightarrow> (ToolException e, st)
             | Inr patched_data \<Rightarrow>
                 (case data_format patched_data of
                    Inl e \<Rightarrow> (ToolException e, st)
                  | Inr validated_patched_data \<Rightarrow>
                      (ToolDict [(''status'', JStr ''success''),
                                 (''patches_applied'', JInt (int (length patches)))],
                       st\<lparr>current_extraction := Some (model_dump validated_patched_data)\<rparr>))))"

definition view_existing_extraction :: "agent_state \<Rightarrow> tool_result \<times> agent_state" where
  "view_existing_extraction st = (ToolState (current_extraction st), st)"

subsection \<open>Exceptions, usage and the model's behaviour\<close>

text \<open>
  An exception raised by \<open>agent.invoke_async\<close>, as far as the module looks at it:
  \<open>type(e).__name__\<close>, \<open>str(e)\<close>, \<open>isinstance(e, ClientError)\<close>, and whether it is an
  \<open>Exception\<close> at all: the handler of line 590 is \<open>except Exception\<close>, so an
  \<open>asyncio.CancelledError\<close> or a \<open>KeyboardInterrupt\<close> passes it by.
\<close>

record exc =
  error_type :: string
  error_msg :: string
  is_ClientError :: bool
  is_Exception :: bool

text \<open>What leaves \<open>structured_output_async\<close> as an exception: the caught exception
  itself (a bare \<open>raise\<close>, or an exception no handler surrounds), or a new \<open>ValueError\<close>.\<close>

datatype error =
    Reraised exc
  | ValueError string

record token_usage =
  inputTokens :: int
  outputTokens :: int
  totalTokens :: int
  cacheReadInputTokens :: int
  cacheWriteInputTokens :: int

text \<open>\<open>response.metrics.accumulated_usage\<close>: a dict in which any key may be missing.\<close>

type_synonym usage = "(string \<times> int) list"

text \<open>\<open>usage.get(key, 0)\<close>\<close>

definition get0 :: "usage \<Rightarrow> string \<Rightarrow> int" where
  "get0 u key = (case map_of u key of None \<Rightarrow> 0 | Some v \<Rightarrow> v)"

definition token_usage0 :: token_usage where
  "token_usage0 =
     \<lparr>inputTokens = 0, outputTokens = 0, totalTokens = 0,
      cacheReadInputTokens = 0, cacheWriteInputTokens = 0\<rparr>"

text \<open>\<open>for key in token_usage.keys(): token_usage[key] += usage.get(key, 0)\<close>\<close>

definition add_usage :: "token_usage \<Rightarrow> usage \<Rightarrow> token_usage" where
  "add_usage t u =
     \<lparr>inputTokens = inputTokens t + get0 u ''inputTokens'',
      outputTokens = outputTokens t + get0 u ''outputTokens'',
      totalTokens = totalTokens t + get0 u ''totalTokens'',
      cacheReadInputTokens = cacheReadInputTokens t + get0 u ''cacheReadInputTokens'',
      cacheWriteInputTokens = cacheWriteInputTokens t + get0 u ''cacheWriteInputTokens''\<rparr>"

text \<open>
  The guarded accumulation of lines 649-651 and 721-725. The argument is the
  \<open>accumulated_usage\<close> of the response's metrics, \<open>None\<close> when the metrics are missing; an
  empty dict is false as well.
\<close>

definition accumulate :: "token_usage \<Rightarrow> usage option \<Rightarrow> token_usage" where
  "accumulate t m = (case m of None \<Rightarrow> t | Some u \<Rightarrow> if u = [] then t else add_usage t u)"

datatype tool_call =
    Call_extraction_tool json
  | Call_apply_json_patches "dict list"
  | Call_view_existing_extraction

text \<open>How one call of \<open>agent.invoke_async\<close> ends: it raises, or it returns a response whose
  metrics carry the usage.\<close>

datatype outcome =
    Raises exc
  | Responds "usage option"

text \<open>One call of \<open>agent.invoke_async\<close>: the tool calls the model makes, in order, and the
  end of the call. A call that raises may have run tools before.\<close>

record invocation =
  tool_calls :: "tool_call list"
  outcome :: outcome

definition run_tool ::
  "(json \<Rightarrow> string + 'r) \<Rightarrow> ('r \<Rightarrow> dict) \<Rightarrow> (dict \<Rightarrow> json \<Rightarrow> string + json) \<Rightarrow>
   tool_call \<Rightarrow> agent_state \<Rightarrow> tool_result \<times> agent_state" where
  "run_tool data_format model_dump op_apply c st =
     (case c of
        Call_extraction_tool extraction \<Rightarrow> extraction_tool data_format model_dump extraction st
      | Call_apply_json_patches patches \<Rightarrow>
          apply_json_patches data_format model_dump op_apply patches st
      | Call_view_existing_extraction \<Rightarrow> view_existing_extraction st)"

fun run_tools ::
  "(json \<Rightarrow> string + 'r) \<Rightarrow> ('r \<Rightarrow> dict) \<Rightarrow> (dict \<Rightarrow> json \<Rightarrow> string + json) \<Rightarrow>
   tool_call list \<Rightarrow> agent_state \<Rightarrow> agent_state" where
  "run_tools data_format model_dump op_apply [] st = st"
| "run_tools data_format model_dump op_apply (c # cs) st =
     run_tools data_format model_dump op_apply cs
       (snd (run_tool data_format model_dump op_apply c st))"

subsection \<open>The outer retry loop (lines 581-646)\<close>

definition max_retries :: nat where
  "max_retries = 3"

definition is_retryable :: "exc \<Rightarrow> bool" where
  "is_retryable e =
     (error_type e \<in> set [''ProtocolError'', ''ConnectionError'', ''ReadTimeoutError'', ''IncompleteRead'']
      \<or> py_in ''Response ended prematurely'' (error_msg e)
      \<or> py_in ''Connection'' (error_msg e))"

text \<open>What the handler raises once it does not retry: a \<open>ClientError\<close> as it is, anything
  else as a \<open>ValueError\<close> carrying its message.\<close>

definition raised :: "exc \<Rightarrow> error" where
  "raised e =
     (if is_ClientError e then Reraised e
      else ValueError (''Agent invocation failed: '' @ error_msg e))"

text \<open>The observable trace of a run: how many times \<open>agent.invoke_async\<close> was called, the
  arguments of \<open>asyncio.sleep\<close> in order, and the agent state at the end.\<close>

record trace =
  invocations :: nat
  sleeps :: "nat list"
  final_state :: agent_state

text \<open>
  \<open>for attempt in range(max_retries)\<close>, from \<open>attempt\<close> on. The result is the exception
  raised or the value of \<open>response\<close> after the loop (\<open>None\<close> if the loop ran out without a
  \<open>break\<close>), with the trace so far. An exception that is no \<open>Exception\<close> is not caught:
  it leaves as it is, whatever its name and message.
\<close>

function retry_loop ::
  "(json \<Rightarrow> string + 'r) \<Rightarrow> ('r \<Rightarrow> dict) \<Rightarrow> (dict \<Rightarrow> json \<Rightarrow> string + json) \<Rightarrow>
   (nat \<Rightarrow> invocation) \<Rightarrow> nat \<Rightarrow> nat \<Rightarrow> nat list \<Rightarrow> agent_state \<Rightarrow>
   (error + usage option option) \<times> trace" where
  "retry_loop data_format model_dump op_apply env attempt retry_delay slept st =
     (if attempt < max_retries then
        (case outcome (env attempt) of
           Responds m \<Rightarrow>
             (Inr (Some m),
              \<lparr>invocations = attempt + 1, sleeps = slept,
               final_state = run_tools data_format model_dump op_apply (tool_calls (env attempt)) st\<rparr>)
         | Raises e \<Rightarrow>
             if \<not> is_Exception e then
               (Inl (Reraised e),
                \<lparr>invocations = attempt + 1, sleeps = slept,
                 final_state = run_tools data_format model_dump op_apply (tool_calls (env attempt)) st\<rparr>)
             else if is_retryable e \<and> \<not> (attempt = max_retries - 1)
             then retry_loop data_format model_dump op_apply env (attempt + 1) (retry_delay * 2)
                    (slept @ [retry_delay])
                    (run_tools data_format model_dump op_apply (tool_calls (env attempt)) st)
             else
               (Inl (raised e),
                \<lparr>invocations = attempt + 1, sleeps = slept,
                 final_state = run_tools data_format model_dump op_apply (tool_calls (env attempt)) st\<rparr>))
      else (Inr None, \<lparr>invocations = attempt, sleeps = slept, final_state = st\<rparr>))"
  by pat_completeness auto
termination
  by (relation "measure (\<lambda>(data_format, model_dump, op_apply, env, attempt, retry_delay, slept, st).
        max_retries - attempt)") auto

declare retry_loop.simps [simp del]

subsection \<open>The orchestration (lines 556-761)\<close>

text \<open>
  \<open>if result and response: return result, ...\<close>, else the final \<open>ValueError\<close>. A validated
  record and a response object are true whenever they are not \<open>None\<close>. The metering has
  the one key \<open>{context}/bedrock/{model_id}\<close>.
\<close>

definition best_effort ::
  "string \<Rightarrow> string \<Rightarrow> 'r option \<Rightarrow> usage option option \<Rightarrow> token_usage \<Rightarrow>
   error + ('r \<times> (string \<times> token_usage))" where
  "best_effort model_id context result response token_usage =
     (case (result, response) of
        (Some r, Some m) \<Rightarrow> Inr (r, (context @ ''/bedrock/'' @ model_id, token_usage))
      | _ \<Rightarrow> Inl (ValueError ''Failed to generate valid structured output.''))"

text \<open>
  The \<open>else\<close> branch of \<open>if current_extraction\<close> (lines 677-741), entered with a stored
  extraction that is \<open>None\<close> or empty. With \<open>review_agent\<close> the agent is invoked once more,
  outside any handler. The result is the exception of that call, or the values of \<open>result\<close>
  and \<open>token_usage\<close> after the branch.
\<close>

definition review_branch ::
  "(json \<Rightarrow> string + 'r) \<Rightarrow> ('r \<Rightarrow> dict) \<Rightarrow> (dict \<Rightarrow> json \<Rightarrow> string + json) \<Rightarrow>
   (nat \<Rightarrow> invocation) \<Rightarrow> bool \<Rightarrow> token_usage \<Rightarrow> trace \<Rightarrow>
   (error + ('r option \<times> token_usage)) \<times> trace" where
  "review_branch data_format model_dump op_apply env review_agent token_usage tr =
     (if review_agent then
        (let current_extraction' = current_extraction (final_state tr);
             review = env (invocations tr);
             st' = run_tools data_format model_dump op_apply (tool_calls review) (final_state tr);
             tr' = tr\<lparr>invocations := invocations tr + 1, final_state := st'\<rparr>
         in case outcome review of
              Raises e \<Rightarrow> (Inl (Reraised e), tr')
            | Responds m \<Rightarrow>
                (let updated_extraction = current_extraction st' in
                 if updated_extraction \<noteq> current_extraction'
                 then
                   (case updated_extraction of
                      None \<Rightarrow> (Inr (None, accumulate token_usage m), tr')
                    | Some d \<Rightarrow>
                        (case data_format (JObj d) of
                           Inl e \<Rightarrow> (Inr (None, accumulate token_usage m), tr')
                         | Inr r \<Rightarrow> (Inr (Some r, accumulate token_usage m), tr')))
                 else (Inr (None, accumulate token_usage m), tr')))
      else (Inr (None, token_usage), tr))"

text \<open>
  The agent's state when the exchange starts: \<open>current_extraction\<close> is \<open>None\<close> (line 511),
  or the dump of the caller's \<open>existing_data\<close> when one is given (line 579).
\<close>

definition initial_state :: "('r \<Rightarrow> dict) \<Rightarrow> 'r option \<Rightarrow> agent_state" where
  "initial_state model_dump existing_data =
     (let st0 = \<lparr>current_extraction = None,
                 existing_data_dump = map_option model_dump existing_data\<rparr>
      in case existing_data of
           None \<Rightarrow> st0
         | Some x \<Rightarrow> st0\<lparr>current_extraction := Some (model_dump x)\<rparr>)"

definition structured_output_async ::
  "(json \<Rightarrow> string + 'r) \<Rightarrow> ('r \<Rightarrow> dict) \<Rightarrow> (dict \<Rightarrow> json \<Rightarrow> string + json) \<Rightarrow>
   string \<Rightarrow> 'r option \<Rightarrow> bool \<Rightarrow> string \<Rightarrow> (nat \<Rightarrow> invocation) \<Rightarrow>
   (error + ('r \<times> (string \<times> token_usage))) \<times> trace" where
  "structured_output_async data_format model_dump op_apply model_id existing_data review_agent
     context env =
     (case retry_loop data_format model_dump op_apply env 0 2 []
             (initial_state model_dump existing_data) of
           (Inl err, tr) \<Rightarrow> (Inl err, tr)
         | (Inr response, tr) \<Rightarrow>
             (let token_usage = (case response of
                                   None \<Rightarrow> token_usage0
                                 | Some m \<Rightarrow> accumulate token_usage0 m)
              in case current_extraction (final_state tr) of
                   Some d \<Rightarrow>
                     if truthy (Some d) then
                       (case data_format (JObj d) of
                          Inl e \<Rightarrow>
                            (Inl (ValueError (''Failed to validate extraction against schema: '' @ e)), tr)
                        | Inr r \<Rightarrow> (best_effort model_id context (Some r) response token_usage, tr))
                     else
                       (case review_branch data_format model_dump op_apply env review_agent
                               token_usage tr of
                          (Inl err, tr') \<Rightarrow> (Inl err, tr')
                        | (Inr (result, token_usage'), tr') \<Rightarrow>
                            (best_effort model_id context result response token_usage', tr'))
                 | None \<Rightarrow>
                     (case review_branch data_format model_dump op_apply env review_agent
                             token_usage tr of
                        (Inl err, tr') \<Rightarrow> (Inl err, tr')
                      | (Inr (result, token_usage'), tr') \<Rightarrow>
                          (best_effort model_id context result response token_usage', tr'))))"

subsection \<open>Vocabulary of the properties\<close>

text \<open>
  The values of \<open>response.metrics.accumulated_usage\<close> handed to the module by the calls
  of \<open>agent.invoke_async\<close> that returned, among the first \<open>n\<close> calls, in order. A call
  that raises hands over nothing.
\<close>

definition handed_over :: "(nat \<Rightarrow> invocation) \<Rightarrow> nat \<Rightarrow> usage option list" where
  "handed_over env n =
     concat (map (\<lambda>k. case outcome (env k) of Responds m \<Rightarrow> [m] | Raises e \<Rightarrow> []) [0..<n])"

text \<open>The value a response hands over for a counter: \<open>usage.get(key, 0)\<close>, and 0 when the
  response carries no usage.\<close>

definition reported :: "usage option \<Rightarrow> string \<Rightarrow> int" where
  "reported m key = (case m of None \<Rightarrow> 0 | Some u \<Rightarrow> get0 u key)"

text \<open>The five counters of a \<open>token_usage\<close>, and their keys in the same order.\<close>

definition counters :: "token_usage \<Rightarrow> int list" where
  "counters t =
     [inputTokens t, outputTokens t, totalTokens t, cacheReadInputTokens t, cacheWriteInputTokens t]"

definition token_keys :: "string list" where
  "token_keys =
     [''inputTokens'', ''outputTokens'', ''totalTokens'', ''cacheReadInputTokens'',
      ''cacheWriteInputTokens'']"

text \<open>
  The agent library's side of the metering. The module creates one agent (line 506) and
  calls it for the exchange and for the review (lines 587, 717); the agent keeps one metrics
  object for its lifetime, so the \<open>accumulated_usage\<close> of a response is the running total
  over all calls made on the agent so far, not the usage of that call alone. With
  \<open>own k\<close> the usage the k-th call itself consumed, the responses among the first \<open>n\<close>
  calls hand over, for each of the five keys, the sum of \<open>own\<close> up to their call.
\<close>

definition cumulative_metrics :: "(nat \<Rightarrow> invocation) \<Rightarrow> (nat \<Rightarrow> usage) \<Rightarrow> nat \<Rightarrow> bool" where
  "cumulative_metrics env own n =
     list_all
       (\<lambda>k. case outcome (env k) of
              Raises e \<Rightarrow> True
            | Responds m \<Rightarrow>
                list_all (\<lambda>key. reported m key = (\<Sum>j\<leftarrow>[0..<Suc k]. get0 (own j) key)) token_keys)
       [0..<n]"

text \<open>A tool call that is a call of \<open>extraction_tool\<close> with an extraction the schema accepts.\<close>

definition successful_extraction :: "(json \<Rightarrow> string + 'r) \<Rightarrow> tool_call \<Rightarrow> bool" where
  "successful_extraction data_format c =
     (case c of
        Call_extraction_tool extraction \<Rightarrow> \<not> isl (data_format extraction)
      | _ \<Rightarrow> False)"

text \<open>The dict a successful \<open>apply_json_patches\<close> returns, and the one of its guard.\<close>

definition patch_success :: "dict list \<Rightarrow> tool_result" where
  "patch_success patches =
     ToolDict [(''status'', JStr ''success''), (''patches_applied'', JInt (int (length patches)))]"

definition no_current_extraction :: tool_result where
  "no_current_extraction = ToolDict [(''error'', JStr ''No current extraction to patch'')]"

subsection \<open>A concrete schema, a concrete patch semantics and concrete runs\<close>

text \<open>
  \<open>class Persona(BaseModel): age: int; name: str\<close> of the module's \<open>__main__\<close>, read with
  strict field types: a mapping is accepted when \<open>age\<close> is an integer and \<open>name\<close> a string,
  other keys are dropped by the dump. Pydantic's default mode also coerces, for instance the
  string \<open>"34"\<close> to the integer 34; the runs below use integers for \<open>age\<close> and a
  non-numeric string where the validation is to fail, where both readings agree.
\<close>

datatype Persona = Persona (age: int) (name: string)

fun Persona_format :: "json \<Rightarrow> string + Persona" where
  "Persona_format (JObj kvs) =
     (case (map_of kvs ''age'', map_of kvs ''name'') of
        (Some (JInt a), Some (JStr n)) \<Rightarrow> Inr (Persona a n)
      | _ \<Rightarrow> Inl ''validation error for Persona'')"
| "Persona_format _ = Inl ''argument after ** must be a mapping''"

definition Persona_dump :: "Persona \<Rightarrow> dict" where
  "Persona_dump p = [(''age'', JInt (age p)), (''name'', JStr (name p))]"

text \<open>A schema with no fields: every mapping is accepted and the dump is \<open>{}\<close>.\<close>

datatype NoFields = NoFields

fun NoFields_format :: "json \<Rightarrow> string + NoFields" where
  "NoFields_format (JObj kvs) = Inr NoFields"
| "NoFields_format _ = Inl ''argument after ** must be a mapping''"

definition NoFields_dump :: "NoFields \<Rightarrow> dict" where
  "NoFields_dump p = []"

text \<open>
  The operations \<open>add\<close>, \<open>replace\<close> and \<open>remove\<close> of RFC 6902, the three the system prompt
  names, on JSON pointers (RFC 6901). The package also applies \<open>move\<close>, \<open>copy\<close> and
  \<open>test\<close>; they are not modelled, and this instance answers them with an error. The
  theorems below hold for every \<open>op_apply\<close>; this instance serves the worked runs, which
  use the three operations only.
\<close>

fun split_slash :: "string \<Rightarrow> string list" where
  "split_slash [] = [[]]"
| "split_slash (c # cs) =
     (if c = CHR ''/'' then [] # split_slash cs
      else (case split_slash cs of
              [] \<Rightarrow> [[c]]
            | w # ws \<Rightarrow> (c # w) # ws))"

fun unescape :: "string \<Rightarrow> string" where
  "unescape (a # b # cs) =
     (if a = CHR ''~'' \<and> b = CHR ''1'' then CHR ''/'' # unescape cs
      else if a = CHR ''~'' \<and> b = CHR ''0'' then CHR ''~'' # unescape cs
      else a # unescape (b # cs))"
| "unescape cs = cs"

text \<open>A \<open>~\<close> in a pointer must be followed by \<open>0\<close> or \<open>1\<close>.\<close>

fun invalid_escape :: "string \<Rightarrow> bool" where
  "invalid_escape [] = False"
| "invalid_escape [a] = (a = CHR ''~'')"
| "invalid_escape (a # b # cs) =
     (if a = CHR ''~'' then (b \<noteq> CHR ''0'' \<and> b \<noteq> CHR ''1'') \<or> invalid_escape cs
      else invalid_escape (b # cs))"

definition pointer_parts :: "string \<Rightarrow> string + string list" where
  "pointer_parts path =
     (case split_slash path of
        [] \<Rightarrow> Inl ''Location must start with /''
      | w # ws \<Rightarrow>
          if w \<noteq> [] then Inl ''Location must start with /''
          else if list_ex invalid_escape ws then Inl ''Found invalid escape''
          else Inr (map unescape ws))"

definition digit_val :: "char \<Rightarrow> nat option" where
  "digit_val c =
     (if 48 \<le> (of_char c :: nat) \<and> (of_char c :: nat) \<le> 57 then Some ((of_char c :: nat) - 48)
      else None)"

fun decimal :: "nat \<Rightarrow> string \<Rightarrow> nat option" where
  "decimal acc [] = Some acc"
| "decimal acc (c # cs) =
     (case digit_val c of None \<Rightarrow> None | Some d \<Rightarrow> decimal (10 * acc + d) cs)"

text \<open>An array index: \<open>0\<close>, or digits without a leading zero.\<close>

definition array_index :: "string \<Rightarrow> nat option" where
  "array_index t =
     (if t = [] then None
      else if hd t = CHR ''0'' \<and> tl t \<noteq> [] then None
      else decimal 0 t)"

fun child :: "string \<Rightarrow> json \<Rightarrow> string + json" where
  "child t (JObj kvs) =
     (case map_of kvs t of None \<Rightarrow> Inl ''member not found'' | Some v \<Rightarrow> Inr v)"
| "child t (JArr xs) =
     (case array_index t of
        None \<Rightarrow> Inl ''not a valid sequence index''
      | Some i \<Rightarrow> if i < length xs then Inr (xs ! i) else Inl ''index out of bounds'')"
| "child t _ = Inl ''document does not support indexing''"

fun set_child :: "string \<Rightarrow> json \<Rightarrow> json \<Rightarrow> string + json" where
  "set_child t v (JObj kvs) = Inr (JObj (AList.update t v kvs))"
| "set_child t v (JArr xs) =
     (case array_index t of
        None \<Rightarrow> Inl ''not a valid sequence index''
      | Some i \<Rightarrow> if i < length xs then Inr (JArr (xs[i := v])) else Inl ''index out of bounds'')"
| "set_child t v _ = Inl ''document does not support indexing''"

fun add_at :: "json \<Rightarrow> string \<Rightarrow> json \<Rightarrow> string + json" where
  "add_at v t (JObj kvs) = Inr (JObj (AList.update t v kvs))"
| "add_at v t (JArr xs) =
     (if t = ''-'' then Inr (JArr (xs @ [v]))
      else (case array_index t of
              None \<Rightarrow> Inl ''not a valid sequence index''
            | Some i \<Rightarrow>
                if i > length xs then Inl ''cannot insert outside of list''
                else Inr (JArr (take i xs @ v # drop i xs))))"
| "add_at v t _ = Inl ''unable to fully resolve json pointer''"

fun replace_at :: "json \<Rightarrow> string \<Rightarrow> json \<Rightarrow> string + json" where
  "replace_at v t (JObj kvs) =
     (case map_of kvs t of
        None \<Rightarrow> Inl ''cannot replace a non-existent object''
      | Some old \<Rightarrow> Inr (JObj (AList.update t v kvs)))"
| "replace_at v t (JArr xs) =
     (case array_index t of
        None \<Rightarrow> Inl ''not a valid sequence index''
      | Some i \<Rightarrow>
          if i < length xs then Inr (JArr (xs[i := v]))
          else Inl ''cannot replace outside of list'')"
| "replace_at v t _ = Inl ''unable to fully resolve json pointer''"

fun remove_at :: "string \<Rightarrow> json \<Rightarrow> string + json" where
  "remove_at t (JObj kvs) =
     (case map_of kvs t of
        None \<Rightarrow> Inl ''cannot remove a non-existent object''
      | Some old \<Rightarrow> Inr (JObj (AList.delete t kvs)))"
| "remove_at t (JArr xs) =
     (case array_index t of
        None \<Rightarrow> Inl ''not a valid sequence index''
      | Some i \<Rightarrow>
          if i < length xs then Inr (JArr (take i xs @ drop (Suc i) xs))
          else Inl ''cannot remove a non-existent object'')"
| "remove_at t _ = Inl ''unable to fully resolve json pointer''"

text \<open>Walk to the container of the last part, change it there, and rebuild the path.\<close>

fun at_pointer :: "(string \<Rightarrow> json \<Rightarrow> string + json) \<Rightarrow> string list \<Rightarrow> json \<Rightarrow> string + json" where
  "at_pointer f [] doc = Inl ''no location''"
| "at_pointer f [t] doc = f t doc"
| "at_pointer f (t # ts) doc =
     (case child t doc of
        Inl e \<Rightarrow> Inl e
      | Inr sub \<Rightarrow>
          (case at_pointer f ts sub of
             Inl e \<Rightarrow> Inl e
           | Inr sub' \<Rightarrow> set_child t sub' doc))"

definition rfc6902_op :: "dict \<Rightarrow> json \<Rightarrow> string + json" where
  "rfc6902_op p doc =
     (case (map_of p ''op'', map_of p ''path'') of
        (Some (JStr operation), Some (JStr path)) \<Rightarrow>
          (case pointer_parts path of
             Inl e \<Rightarrow> Inl e
           | Inr parts \<Rightarrow>
               if operation = ''remove'' then at_pointer remove_at parts doc
               else if operation = ''add'' \<or> operation = ''replace'' then
                 (case map_of p ''value'' of
                    None \<Rightarrow> Inl ''The operation does not contain a value member''
                  | Some v \<Rightarrow>
                      if parts = [] then Inr v
                      else if operation = ''add'' then at_pointer (add_at v) parts doc
                      else at_pointer (replace_at v) parts doc)
               else Inl ''operation not modelled'')
      | _ \<Rightarrow> Inl ''Operation does not contain op and path members'')"

definition jane :: dict where
  "jane = [(''age'', JInt 34), (''name'', JStr ''Jane'')]"

definition replace_age :: dict where
  "replace_age = [(''op'', JStr ''replace''), (''path'', JStr ''/age''), (''value'', JInt 35)]"

definition replace_age_by_text :: dict where
  "replace_age_by_text =
     [(''op'', JStr ''replace''), (''path'', JStr ''/age''), (''value'', JStr ''thirty-five'')]"

definition has_jane :: agent_state where
  "has_jane = \<lparr>current_extraction = Some jane, existing_data_dump = None\<rparr>"

definition remove_missing :: dict where
  "remove_missing = [(''op'', JStr ''remove''), (''path'', JStr ''/missing/0'')]"

definition sonnet_4 :: string where
  "sonnet_4 = ''us.anthropic.claude-sonnet-4-20250514-v1:0''"

definition nova_pro :: string where
  "nova_pro = ''amazon.nova-pro-v1:0''"

definition claude_3_5 :: string where
  "claude_3_5 = ''anthropic.claude-3-5-sonnet-20241022-v2:0''"

definition llama_3 :: string where
  "llama_3 = ''meta.llama3-70b-instruct-v1:0''"

definition usage_a :: usage where
  "usage_a = [(''inputTokens'', 100), (''outputTokens'', 20), (''totalTokens'', 120)]"

definition usage_b :: usage where
  "usage_b = [(''inputTokens'', 150), (''outputTokens'', 5), (''totalTokens'', 155),
              (''cacheReadInputTokens'', 90)]"

text \<open>The total the agent's metrics show after a call that consumed \<open>usage_a\<close> and one that
  consumed \<open>usage_b\<close>.\<close>

definition usage_a_then_b :: usage where
  "usage_a_then_b = [(''inputTokens'', 250), (''outputTokens'', 25), (''totalTokens'', 275),
                     (''cacheReadInputTokens'', 90)]"

definition protocol_error :: exc where
  "protocol_error =
     \<lparr>error_type = ''ProtocolError'', error_msg = ''Response ended prematurely'',
      is_ClientError = False, is_Exception = True\<rparr>"





text \<open>The model stores Jane's record and answers.\<close>

definition extracts_jane :: invocation where
  "extracts_jane =
     \<lparr>tool_calls = [Call_extraction_tool (JObj jane)], outcome = Responds (Some usage_a)\<rparr>"

definition drops :: invocation where
  "drops = \<lparr>tool_calls = [], outcome = Raises protocol_error\<rparr>"

text \<open>
  The model answers the first call without using a tool, consuming \<open>usage_a\<close>, and stores
  Jane's record in every later call, consuming \<open>usage_b\<close>. The responses hand over the
  running totals of the agent's metrics; the second call is the one that matters below.
\<close>

definition extracts_late :: "nat \<Rightarrow> invocation" where
  "extracts_late k =
     (if k = 0 then \<lparr>tool_calls = [], outcome = Responds (Some usage_a)\<rparr>
      else \<lparr>tool_calls = [Call_extraction_tool (JObj jane)],
            outcome = Responds (Some usage_a_then_b)\<rparr>)"

definition own_late :: "nat \<Rightarrow> usage" where
  "own_late k = (if k = 0 then usage_a else usage_b)"

text \<open>The first \<open>n\<close> calls lose the connection, every later call extracts Jane's record.\<close>

definition fails_then_succeeds :: "nat \<Rightarrow> nat \<Rightarrow> invocation" where
  "fails_then_succeeds n k = (if k < n then drops else extracts_jane)"

section \<open>Properties\<close>

subsection \<open>Substring search\<close>

lemma starts_with_iff: "starts_with p s \<longleftrightarrow> (\<exists>b. s = p @ b)"
  by (induction p s rule: starts_with.induct) auto

text \<open>\<open>py_in\<close> is the substring relation.\<close>

lemma py_in_iff: "py_in p s \<longleftrightarrow> (\<exists>a b. s = a @ p @ b)"
proof (induction s)
  case Nil
  then show ?case by auto
next
  case (Cons c cs)
  show ?case
  proof
    assume "py_in p (c # cs)"
    then consider "starts_with p (c # cs)" | "py_in p cs" by auto
    then show "\<exists>a b. c # cs = a @ p @ b"
    proof cases
      case 1
      then obtain b where "c # cs = p @ b" by (auto simp: starts_with_iff)
      then have "c # cs = [] @ p @ b" by simp
      then show ?thesis by blast
    next
      case 2
      with Cons obtain a b where "cs = a @ p @ b" by auto
      then have "c # cs = (c # a) @ p @ b" by simp
      then show ?thesis by blast
    qed
  next
    assume "\<exists>a b. c # cs = a @ p @ b"
    then obtain a b where ab: "c # cs = a @ p @ b" by blast
    show "py_in p (c # cs)"
    proof (cases a)
      case Nil
      with ab have "starts_with p (c # cs)" by (auto simp: starts_with_iff)
      then show ?thesis by simp
    next
      case (Cons x a')
      with ab have "cs = a' @ p @ b" by simp
      with Cons.IH have "py_in p cs" by blast
      then show ?thesis by simp
    qed
  qed
qed

subsection \<open>Capability detection and clamp\<close>

lemma model_max_sonnet_4: "model_max sonnet_4 = 64000"
  by code_simp

text \<open>
  C5. The effective maximum of output tokens is the caller's \<open>max_tokens\<close> when it is given
  and at most the model's detected maximum, and the model's maximum otherwise: a larger
  value is clamped down, an absent one yields the model's maximum, and the effective value
  never exceeds the model's maximum.
\<close>

theorem max_output_tokens_clamp:
  "(max_tokens = Some t \<and> t \<le> model_max model_id \<longrightarrow> max_output_tokens model_id max_tokens = t) \<and>
   (max_tokens = Some t \<and> t > model_max model_id \<longrightarrow>
      max_output_tokens model_id max_tokens = model_max model_id) \<and>
   (max_tokens = None \<longrightarrow> max_output_tokens model_id max_tokens = model_max model_id) \<and>
   max_output_tokens model_id max_tokens \<le> model_max model_id"
  by (cases max_tokens) (auto simp: max_output_tokens_def)

theorem max_output_tokens_clamp_witness:
  "max_output_tokens sonnet_4 (Some 100000) = 64000 \<and>
   max_output_tokens sonnet_4 (Some 4096) = 4096 \<and>
   max_output_tokens sonnet_4 None = 64000"
  using max_output_tokens_clamp [of "Some 100000" 100000 sonnet_4]
    max_output_tokens_clamp [of "Some 4096" 4096 sonnet_4]
    max_output_tokens_clamp [of None 0 sonnet_4]
  by (simp add: model_max_sonnet_4)

text \<open>
  C6. Capability detection gives every model identifier one of four maxima, by a fixed
  precedence on the lower-cased identifier: a match of \<open>claude-(opus|sonnet|haiku)-4\<close> gives
  64000; otherwise one of the four Nova names gives 10000; otherwise \<open>claude-3\<close> gives 8192;
  otherwise the default 4096. An identifier of the first class with no \<open>max_tokens\<close> has the
  effective maximum 64000.
\<close>

theorem model_max_precedence:
  "(re_search_claude_4 (lower model_id) \<longrightarrow> model_max model_id = 64000) \<and>
   (\<not> re_search_claude_4 (lower model_id) \<and> any_nova (lower model_id) \<longrightarrow>
      model_max model_id = 10000) \<and>
   (\<not> re_search_claude_4 (lower model_id) \<and> \<not> any_nova (lower model_id) \<and>
    py_in ''claude-3'' (lower model_id) \<longrightarrow> model_max model_id = 8192) \<and>
   (\<not> re_search_claude_4 (lower model_id) \<and> \<not> any_nova (lower model_id) \<and>
    \<not> py_in ''claude-3'' (lower model_id) \<longrightarrow> model_max model_id = 4096) \<and>
   (re_search_claude_4 (lower model_id) \<longrightarrow> max_output_tokens model_id None = 64000)"
  by (simp add: model_max_def max_output_tokens_def)

theorem model_max_precedence_witness:
  "model_max sonnet_4 = 64000 \<and> max_output_tokens sonnet_4 None = 64000 \<and>
   model_max nova_pro = 10000 \<and> model_max claude_3_5 = 8192 \<and> model_max llama_3 = 4096"
proof -
  have a: "re_search_claude_4 (lower sonnet_4)" by code_simp
  have b: "\<not> re_search_claude_4 (lower nova_pro) \<and> any_nova (lower nova_pro)" by code_simp
  have c: "\<not> re_search_claude_4 (lower claude_3_5) \<and> \<not> any_nova (lower claude_3_5) \<and>
           py_in ''claude-3'' (lower claude_3_5)" by code_simp
  have d: "\<not> re_search_claude_4 (lower llama_3) \<and> \<not> any_nova (lower llama_3) \<and>
           \<not> py_in ''claude-3'' (lower llama_3)" by code_simp
  from a model_max_precedence [of sonnet_4]
  have 1: "model_max sonnet_4 = 64000 \<and> max_output_tokens sonnet_4 None = 64000" by simp
  from b model_max_precedence [of nova_pro] have 2: "model_max nova_pro = 10000" by simp
  from c model_max_precedence [of claude_3_5] have 3: "model_max claude_3_5 = 8192" by simp
  from d model_max_precedence [of llama_3] have 4: "model_max llama_3 = 4096" by simp
  from 1 2 3 4 show ?thesis by simp
qed

subsection \<open>The patch tool\<close>

lemma JsonPatch_apply_append:
  "JsonPatch_apply f (xs @ ys) d =
     (case JsonPatch_apply f xs d of Inl e \<Rightarrow> Inl e | Inr d' \<Rightarrow> JsonPatch_apply f ys d')"
  by (induction xs arbitrary: d) (auto split: sum.splits)

lemma JsonPatch_apply_failing_op:
  assumes "patches = pre @ p # post" and "JsonPatch_apply f pre d = Inr mid" and "f p mid = Inl e"
  shows "JsonPatch_apply f patches d = Inl e"
  using assms by (simp add: JsonPatch_apply_append)

lemma apply_patches_to_data_eq:
  "apply_patches_to_data f cur patches = JsonPatch_apply f patches (JObj cur)"
  by (cases patches) (simp_all add: apply_patches_to_data_def)

lemma apply_json_patches_falsy:
  "\<not> truthy (current_extraction st) \<Longrightarrow>
   apply_json_patches df dump f patches st = (no_current_extraction, st)"
  by (auto simp: apply_json_patches_def no_current_extraction_def truthy_def split: option.splits)

lemma apply_json_patches_rejected:
  assumes "current_extraction st = Some cur" and "JsonPatch_apply f patches (JObj cur) = Inl e"
  shows "snd (apply_json_patches df dump f patches st) = st"
  using assms by (simp add: apply_json_patches_def apply_patches_to_data_eq)

lemma apply_json_patches_invalid:
  assumes "current_extraction st = Some cur" and "JsonPatch_apply f patches (JObj cur) = Inr patched"
    and "df patched = Inl e"
  shows "snd (apply_json_patches df dump f patches st) = st"
  using assms by (simp add: apply_json_patches_def apply_patches_to_data_eq)

lemma apply_json_patches_commit:
  assumes "current_extraction st = Some cur" and "cur \<noteq> []"
    and "JsonPatch_apply f patches (JObj cur) = Inr patched" and "df patched = Inr v"
  shows "apply_json_patches df dump f patches st =
           (patch_success patches, st\<lparr>current_extraction := Some (dump v)\<rparr>)"
  using assms
  by (simp add: apply_json_patches_def apply_patches_to_data_eq truthy_def patch_success_def)

lemma apply_json_patches_cases:
  "snd (apply_json_patches df dump f patches st) = st \<or>
   (\<exists>cur patched v. current_extraction st = Some cur \<and> cur \<noteq> [] \<and>
      JsonPatch_apply f patches (JObj cur) = Inr patched \<and> df patched = Inr v \<and>
      apply_json_patches df dump f patches st =
        (patch_success patches, st\<lparr>current_extraction := Some (dump v)\<rparr>))"
  by (auto simp: apply_json_patches_def apply_patches_to_data_eq truthy_def patch_success_def
      split: option.splits sum.splits)

text \<open>
  C2. Patch application is atomic. With a stored extraction \<open>cur\<close>: if some operation of the
  set fails where it is applied (after the operations before it went through), or the
  patched object fails validation, the state after \<open>apply_json_patches\<close> is the state
  before; if every operation and the validation succeed, the state holds the dump of the
  validated result of the whole ordered set. In every case the state after the call is
  either the state before or that full commit.
\<close>

theorem apply_json_patches_atomic:
  "(current_extraction st = Some cur \<and> patches = pre @ p # post \<and>
    JsonPatch_apply op_apply pre (JObj cur) = Inr mid \<and> op_apply p mid = Inl e \<longrightarrow>
      snd (apply_json_patches data_format model_dump op_apply patches st) = st) \<and>
   (current_extraction st = Some cur \<and>
    JsonPatch_apply op_apply patches (JObj cur) = Inr patched \<and> data_format patched = Inl e' \<longrightarrow>
      snd (apply_json_patches data_format model_dump op_apply patches st) = st) \<and>
   (current_extraction st = Some cur \<and> cur \<noteq> [] \<and>
    JsonPatch_apply op_apply patches (JObj cur) = Inr patched \<and> data_format patched = Inr v \<longrightarrow>
      apply_json_patches data_format model_dump op_apply patches st =
        (patch_success patches, st\<lparr>current_extraction := Some (model_dump v)\<rparr>)) \<and>
   (snd (apply_json_patches data_format model_dump op_apply patches st) = st \<or>
    (\<exists>cur' patched' v'. current_extraction st = Some cur' \<and> cur' \<noteq> [] \<and>
       JsonPatch_apply op_apply patches (JObj cur') = Inr patched' \<and>
       data_format patched' = Inr v' \<and>
       apply_json_patches data_format model_dump op_apply patches st =
         (patch_success patches, st\<lparr>current_extraction := Some (model_dump v')\<rparr>)))"
proof (intro conjI impI)
  assume h: "current_extraction st = Some cur \<and> patches = pre @ p # post \<and>
    JsonPatch_apply op_apply pre (JObj cur) = Inr mid \<and> op_apply p mid = Inl e"
  then have "JsonPatch_apply op_apply patches (JObj cur) = Inl e"
    by (simp add: JsonPatch_apply_failing_op)
  with h show "snd (apply_json_patches data_format model_dump op_apply patches st) = st"
    by (simp add: apply_json_patches_rejected)
next
  assume "current_extraction st = Some cur \<and>
    JsonPatch_apply op_apply patches (JObj cur) = Inr patched \<and> data_format patched = Inl e'"
  then show "snd (apply_json_patches data_format model_dump op_apply patches st) = st"
    by (simp add: apply_json_patches_invalid)
next
  assume "current_extraction st = Some cur \<and> cur \<noteq> [] \<and>
    JsonPatch_apply op_apply patches (JObj cur) = Inr patched \<and> data_format patched = Inr v"
  then show "apply_json_patches data_format model_dump op_apply patches st =
        (patch_success patches, st\<lparr>current_extraction := Some (model_dump v)\<rparr>)"
    by (simp add: apply_json_patches_commit)
next
  show "snd (apply_json_patches data_format model_dump op_apply patches st) = st \<or>
    (\<exists>cur' patched' v'. current_extraction st = Some cur' \<and> cur' \<noteq> [] \<and>
       JsonPatch_apply op_apply patches (JObj cur') = Inr patched' \<and>
       data_format patched' = Inr v' \<and>
       apply_json_patches data_format model_dump op_apply patches st =
         (patch_success patches, st\<lparr>current_extraction := Some (model_dump v')\<rparr>))"
    by (rule apply_json_patches_cases)
qed


lemma replace_age_on_jane: "JsonPatch_apply rfc6902_op [replace_age] (JObj jane) = Inr (JObj [(''age'', JInt 35), (''name'', JStr ''Jane'')])"
  by code_simp
lemma remove_missing_fails: "rfc6902_op remove_missing (JObj [(''age'', JInt 35), (''name'', JStr ''Jane'')]) = Inl ''member not found''"
  by code_simp
lemma replace_age_by_text_on_jane: "JsonPatch_apply rfc6902_op [replace_age_by_text] (JObj jane) = Inr (JObj [(''age'', JStr ''thirty-five''), (''name'', JStr ''Jane'')])"
  by code_simp
lemma Persona_rejects_text_age: "Persona_format (JObj [(''age'', JStr ''thirty-five''), (''name'', JStr ''Jane'')]) = Inl ''validation error for Persona''"
  by code_simp
lemma Persona_accepts_35: "Persona_format (JObj [(''age'', JInt 35), (''name'', JStr ''Jane'')]) = Inr (Persona 35 ''Jane'')"
  by code_simp

theorem apply_json_patches_atomic_witness:
  "snd (apply_json_patches Persona_format Persona_dump rfc6902_op [replace_age, remove_missing] has_jane) = has_jane \<and>
   snd (apply_json_patches Persona_format Persona_dump rfc6902_op [replace_age_by_text] has_jane) = has_jane \<and>
   apply_json_patches Persona_format Persona_dump rfc6902_op [replace_age] has_jane =
     (patch_success [replace_age],
      has_jane\<lparr>current_extraction := Some [(''age'', JInt 35), (''name'', JStr ''Jane'')]\<rparr>)"
proof -
  have c: "current_extraction has_jane = Some jane" "jane \<noteq> []"
    by (simp_all add: has_jane_def jane_def)
  have 1: "snd (apply_json_patches Persona_format Persona_dump rfc6902_op [replace_age, remove_missing] has_jane) = has_jane"
    using apply_json_patches_atomic [where st = has_jane and cur = jane
        and patches = "[replace_age, remove_missing]" and pre = "[replace_age]"
        and p = remove_missing and post = "[]" and op_apply = rfc6902_op
        and mid = "JObj [(''age'', JInt 35), (''name'', JStr ''Jane'')]"
        and e = "''member not found''" and data_format = Persona_format
        and model_dump = Persona_dump] c replace_age_on_jane remove_missing_fails
    by simp
  have 2: "snd (apply_json_patches Persona_format Persona_dump rfc6902_op [replace_age_by_text] has_jane) = has_jane"
    using apply_json_patches_atomic [where st = has_jane and cur = jane
        and patches = "[replace_age_by_text]" and op_apply = rfc6902_op
        and patched = "JObj [(''age'', JStr ''thirty-five''), (''name'', JStr ''Jane'')]"
        and e' = "''validation error for Persona''" and data_format = Persona_format
        and model_dump = Persona_dump] c replace_age_by_text_on_jane Persona_rejects_text_age
    by simp
  have 3: "apply_json_patches Persona_format Persona_dump rfc6902_op [replace_age] has_jane =
     (patch_success [replace_age],
      has_jane\<lparr>current_extraction := Some [(''age'', JInt 35), (''name'', JStr ''Jane'')]\<rparr>)"
    using apply_json_patches_atomic [where st = has_jane and cur = jane
        and patches = "[replace_age]" and op_apply = rfc6902_op
        and patched = "JObj [(''age'', JInt 35), (''name'', JStr ''Jane'')]"
        and v = "Persona 35 ''Jane''" and data_format = Persona_format
        and model_dump = Persona_dump] c replace_age_on_jane Persona_accepts_35
    by (simp add: Persona_dump_def)
  from 1 2 3 show ?thesis by simp
qed

subsection \<open>The guard of the patch tool\<close>

lemma run_tools_append:
  "run_tools df dump f (xs @ ys) st = run_tools df dump f ys (run_tools df dump f xs st)"
  by (induction xs arbitrary: st) simp_all

lemma run_tool_without_extraction:
  assumes "current_extraction st = None" and "\<not> successful_extraction df c"
  shows "snd (run_tool df dump f c st) = st"
proof (cases c)
  case (Call_extraction_tool x)
  with assms(2) have "isl (df x)" by (simp add: successful_extraction_def)
  then obtain e where "df x = Inl e" by (cases "df x") auto
  with Call_extraction_tool show ?thesis by (simp add: run_tool_def extraction_tool_def)
next
  case (Call_apply_json_patches ps)
  with assms(1) show ?thesis
    by (simp add: run_tool_def apply_json_patches_falsy truthy_def)
next
  case Call_view_existing_extraction
  then show ?thesis by (simp add: run_tool_def view_existing_extraction_def)
qed

lemma run_tools_without_extraction:
  assumes "current_extraction st = None" and "\<forall>c \<in> set calls. \<not> successful_extraction df c"
  shows "run_tools df dump f calls st = st"
  using assms
proof (induction calls arbitrary: st)
  case Nil
  then show ?case by simp
next
  case (Cons c cs)
  then have "snd (run_tool df dump f c st) = st"
    by (simp add: run_tool_without_extraction)
  with Cons show ?case by simp
qed

lemma initial_state_None: "current_extraction (initial_state dump None) = None"
  by (simp add: initial_state_def)

text \<open>
  C8, amended. When the caller supplied no existing record and no call of
  \<open>extraction_tool\<close> has succeeded so far, \<open>apply_json_patches\<close> returns the dict
  \<open>{"error": "No current extraction to patch"}\<close> for every patch set and leaves the state
  as it was. The tool calls made so far may be any calls of the three tools.
\<close>

theorem apply_json_patches_requires_extraction:
  assumes "\<forall>c \<in> set calls. \<not> successful_extraction data_format c"
    and "st = run_tools data_format model_dump op_apply calls (initial_state model_dump None)"
  shows "apply_json_patches data_format model_dump op_apply patches st = (no_current_extraction, st)"
proof -
  from assms have "st = initial_state model_dump None"
    by (simp add: run_tools_without_extraction initial_state_None)
  then have "\<not> truthy (current_extraction st)"
    by (simp add: initial_state_None truthy_def)
  then show ?thesis by (rule apply_json_patches_falsy)
qed

theorem apply_json_patches_requires_extraction_witness:
  "apply_json_patches Persona_format Persona_dump rfc6902_op [replace_age]
     (run_tools Persona_format Persona_dump rfc6902_op
        [Call_view_existing_extraction, Call_extraction_tool (JObj [(''age'', JStr ''old'')]),
         Call_apply_json_patches [replace_age]] (initial_state Persona_dump None)) =
   (ToolDict [(''error'', JStr ''No current extraction to patch'')],
    \<lparr>current_extraction = None, existing_data_dump = None\<rparr>)"
proof -
  have h: "\<forall>c \<in> set [Call_view_existing_extraction, Call_extraction_tool (JObj [(''age'', JStr ''old'')]),
         Call_apply_json_patches [replace_age]]. \<not> successful_extraction Persona_format c"
    by (simp add: successful_extraction_def)
  have s: "run_tools Persona_format Persona_dump rfc6902_op
        [Call_view_existing_extraction, Call_extraction_tool (JObj [(''age'', JStr ''old'')]),
         Call_apply_json_patches [replace_age]] (initial_state Persona_dump None) =
      \<lparr>current_extraction = None, existing_data_dump = None\<rparr>"
    by (simp add: run_tool_def view_existing_extraction_def extraction_tool_def
        apply_json_patches_def initial_state_def)
  from apply_json_patches_requires_extraction [OF h refl, of Persona_dump rfc6902_op "[replace_age]"] s
  show ?thesis by (simp add: no_current_extraction_def)
qed

text \<open>
  C8 in the specification's wording (an error whenever no \<open>set_extraction\<close> came before)
  fails when the caller supplied an existing record: line 579 stores its dump as the current
  extraction, and the patch tool applies a patch set although \<open>extraction_tool\<close> was
  never called.
\<close>

theorem apply_json_patches_on_existing_data:
  "apply_json_patches Persona_format Persona_dump rfc6902_op [replace_age]
     (initial_state Persona_dump (Some (Persona 34 ''Jane''))) =
   (ToolDict [(''status'', JStr ''success''), (''patches_applied'', JInt 1)],
    \<lparr>current_extraction = Some [(''age'', JInt 35), (''name'', JStr ''Jane'')],
     existing_data_dump = Some [(''age'', JInt 34), (''name'', JStr ''Jane'')]\<rparr>)"
  by code_simp

text \<open>
  C10. After a successful \<open>extraction_tool\<close> call whose stored dump is the empty mapping,
  \<open>apply_json_patches\<close> still returns \<open>{"error": "No current extraction to patch"}\<close> and
  applies nothing: the guard \<open>if not current_data\<close> is false for \<open>{}\<close> as for \<open>None\<close>.
\<close>

theorem apply_json_patches_after_empty_extraction:
  assumes "data_format extraction = Inr r" and "model_dump r = []"
    and "extraction_tool data_format model_dump extraction st = (res, st')"
  shows "res = ToolText ''Extraction succeeded, the data format is correct'' \<and>
         current_extraction st' = Some [] \<and>
         apply_json_patches data_format model_dump op_apply patches st' =
           (ToolDict [(''error'', JStr ''No current extraction to patch'')], st')"
proof -
  from assms have r: "res = ToolText ''Extraction succeeded, the data format is correct''"
    and s: "st' = st\<lparr>current_extraction := Some []\<rparr>"
    by (auto simp: extraction_tool_def)
  from s have "\<not> truthy (current_extraction st')" by (simp add: truthy_def)
  then have "apply_json_patches data_format model_dump op_apply patches st' = (no_current_extraction, st')"
    by (rule apply_json_patches_falsy)
  with r s show ?thesis by (simp add: no_current_extraction_def)
qed

theorem apply_json_patches_after_empty_extraction_witness:
  "extraction_tool NoFields_format NoFields_dump (JObj []) (initial_state NoFields_dump None) =
     (ToolText ''Extraction succeeded, the data format is correct'',
      \<lparr>current_extraction = Some [], existing_data_dump = None\<rparr>) \<and>
   apply_json_patches NoFields_format NoFields_dump rfc6902_op
       [[(''op'', JStr ''add''), (''path'', JStr ''/note''), (''value'', JStr ''x'')]]
       \<lparr>current_extraction = Some [], existing_data_dump = None\<rparr> =
     (ToolDict [(''error'', JStr ''No current extraction to patch'')],
      \<lparr>current_extraction = Some [], existing_data_dump = None\<rparr>)"
proof -
  have a: "NoFields_format (JObj []) = Inr NoFields" by simp
  have b: "NoFields_dump NoFields = []" by (simp add: NoFields_dump_def)
  have c: "extraction_tool NoFields_format NoFields_dump (JObj []) (initial_state NoFields_dump None) =
     (ToolText ''Extraction succeeded, the data format is correct'',
      \<lparr>current_extraction = Some [], existing_data_dump = None\<rparr>)"
    by (simp add: extraction_tool_def initial_state_def NoFields_dump_def)
  from apply_json_patches_after_empty_extraction [OF a b c, of rfc6902_op
      "[[(''op'', JStr ''add''), (''path'', JStr ''/note''), (''value'', JStr ''x'')]]"] c
  show ?thesis by simp
qed

subsection \<open>The retry loop\<close>

lemma retry_loop_responds:
  assumes "attempt < max_retries" and "outcome (env attempt) = Responds m" and "n = attempt + 1"
  shows "retry_loop df dump f env attempt delay slept st =
           (Inr (Some m),
            \<lparr>invocations = n, sleeps = slept,
             final_state = run_tools df dump f (tool_calls (env attempt)) st\<rparr>)"
  using assms by (subst retry_loop.simps) simp

lemma retry_loop_retries:
  assumes "attempt < max_retries - 1" and "outcome (env attempt) = Raises e"
    and "is_Exception e \<and> is_retryable e" and "n = attempt + 1" and "delay' = delay * 2"
  shows "retry_loop df dump f env attempt delay slept st =
           retry_loop df dump f env n delay' (slept @ [delay])
             (run_tools df dump f (tool_calls (env attempt)) st)"
proof -
  from assms(1) have "attempt < max_retries" and "attempt \<noteq> max_retries - 1" by simp_all
  with assms(2-5) show ?thesis by (subst retry_loop.simps) simp
qed

lemma retry_loop_raises:
  assumes "attempt < max_retries" and "outcome (env attempt) = Raises e"
    and "\<not> is_Exception e \<or> \<not> is_retryable e \<or> attempt = max_retries - 1"
    and "n = attempt + 1"
  shows "retry_loop df dump f env attempt delay slept st =
           (Inl (if is_Exception e then raised e else Reraised e),
            \<lparr>invocations = n, sleeps = slept,
             final_state = run_tools df dump f (tool_calls (env attempt)) st\<rparr>)"
  using assms by (subst retry_loop.simps) auto

lemma structured_output_async_raises:
  assumes "retry_loop df dump f env 0 2 [] (initial_state dump existing) = (Inl err, tr)"
  shows "structured_output_async df dump f model_id existing review ctx env = (Inl err, tr)"
  using assms by (simp add: structured_output_async_def)

lemma structured_output_async_extracted:
  assumes "retry_loop df dump f env 0 2 [] (initial_state dump existing) = (Inr (Some m), tr)"
    and "current_extraction (final_state tr) = Some d" and "d \<noteq> []" and "df (JObj d) = Inr r"
  shows "structured_output_async df dump f model_id existing review ctx env =
           (Inr (r, (ctx @ ''/bedrock/'' @ model_id, accumulate token_usage0 m)), tr)"
  using assms by (simp add: structured_output_async_def truthy_def best_effort_def)

text \<open>
  C3, amended. The loop makes at most three attempts. Two consecutive transient failures
  (exceptions the handler catches and finds retryable) followed by a success give a
  successful model call after sleeps of 2 and 4 seconds, with three calls of the model in
  all, the last one the only success, and no retry after it; the invocation then returns
  the record when the stored extraction is a non-empty mapping that validates. A third
  consecutive failure is raised after the same two sleeps, without a fourth call.
\<close>

theorem two_failures_then_success:
  assumes "outcome (env 0) = Raises ea" and "is_Exception ea \<and> is_retryable ea"
    and "outcome (env 1) = Raises eb" and "is_Exception eb \<and> is_retryable eb"
    and "st_end = run_tools data_format model_dump op_apply (tool_calls (env 2))
                 (run_tools data_format model_dump op_apply (tool_calls (env 1))
                   (run_tools data_format model_dump op_apply (tool_calls (env 0))
                     (initial_state model_dump existing_data)))"
  shows "(outcome (env 2) = Responds m \<longrightarrow>
            retry_loop data_format model_dump op_apply env 0 2 []
                (initial_state model_dump existing_data) =
              (Inr (Some m), \<lparr>invocations = 3, sleeps = [2, 4], final_state = st_end\<rparr>)) \<and>
         (outcome (env 2) = Responds m \<and> current_extraction st_end = Some d \<and> d \<noteq> [] \<and>
          data_format (JObj d) = Inr r \<longrightarrow>
            structured_output_async data_format model_dump op_apply model_id existing_data
                review_agent ctx env =
              (Inr (r, (ctx @ ''/bedrock/'' @ model_id, accumulate token_usage0 m)),
               \<lparr>invocations = 3, sleeps = [2, 4], final_state = st_end\<rparr>)) \<and>
         (outcome (env 2) = Raises ec \<longrightarrow>
            structured_output_async data_format model_dump op_apply model_id existing_data
                review_agent ctx env =
              (Inl (if is_Exception ec then raised ec else Reraised ec),
               \<lparr>invocations = 3, sleeps = [2, 4], final_state = st_end\<rparr>))"
proof -
  let ?st0 = "initial_state model_dump existing_data"
  let ?st1 = "run_tools data_format model_dump op_apply (tool_calls (env 0)) ?st0"
  let ?st2 = "run_tools data_format model_dump op_apply (tool_calls (env 1)) ?st1"
  let ?loop = "retry_loop data_format model_dump op_apply env"
  have a: "?loop 0 2 [] ?st0 = ?loop 1 4 [2] ?st1"
    using assms(1,2) by (subst retry_loop_retries [where e = ea]) (simp_all add: max_retries_def)
  have b: "?loop 1 4 [2] ?st1 = ?loop 2 8 [2, 4] ?st2"
    using assms(3,4) by (subst retry_loop_retries [where e = eb]) (simp_all add: max_retries_def)
  have ok: "?loop 0 2 [] ?st0 = (Inr (Some m), \<lparr>invocations = 3, sleeps = [2, 4], final_state = st_end\<rparr>)"
    if "outcome (env 2) = Responds m"
  proof -
    have "?loop 2 8 [2, 4] ?st2 =
        (Inr (Some m), \<lparr>invocations = 3, sleeps = [2, 4], final_state = st_end\<rparr>)"
      unfolding assms(5) by (rule retry_loop_responds) (simp_all add: that max_retries_def)
    with a b show ?thesis by (simp only:)
  qed
  have bad: "?loop 0 2 [] ?st0 = (Inl (if is_Exception ec then raised ec else Reraised ec),
               \<lparr>invocations = 3, sleeps = [2, 4], final_state = st_end\<rparr>)"
    if "outcome (env 2) = Raises ec"
  proof -
    have "?loop 2 8 [2, 4] ?st2 =
        (Inl (if is_Exception ec then raised ec else Reraised ec),
               \<lparr>invocations = 3, sleeps = [2, 4], final_state = st_end\<rparr>)"
      unfolding assms(5) by (rule retry_loop_raises) (simp_all add: that max_retries_def)
    with a b show ?thesis by (simp only:)
  qed
  show ?thesis
  proof (intro conjI impI)
    assume "outcome (env 2) = Responds m"
    then show "?loop 0 2 [] ?st0 =
        (Inr (Some m), \<lparr>invocations = 3, sleeps = [2, 4], final_state = st_end\<rparr>)"
      by (rule ok)
  next
    assume h: "outcome (env 2) = Responds m \<and> current_extraction st_end = Some d \<and> d \<noteq> [] \<and>
          data_format (JObj d) = Inr r"
    then have "?loop 0 2 [] ?st0 =
        (Inr (Some m), \<lparr>invocations = 3, sleeps = [2, 4], final_state = st_end\<rparr>)"
      by (simp add: ok)
    from structured_output_async_extracted [OF this, where d = d and r = r and model_id = model_id
        and review = review_agent and ctx = ctx] h
    show "structured_output_async data_format model_dump op_apply model_id existing_data
                review_agent ctx env =
              (Inr (r, (ctx @ ''/bedrock/'' @ model_id, accumulate token_usage0 m)),
               \<lparr>invocations = 3, sleeps = [2, 4], final_state = st_end\<rparr>)"
      by simp
  next
    assume "outcome (env 2) = Raises ec"
    then have "?loop 0 2 [] ?st0 =
        (Inl (if is_Exception ec then raised ec else Reraised ec),
               \<lparr>invocations = 3, sleeps = [2, 4], final_state = st_end\<rparr>)"
      by (rule bad)
    then show "structured_output_async data_format model_dump op_apply model_id existing_data
                review_agent ctx env =
              (Inl (if is_Exception ec then raised ec else Reraised ec),
               \<lparr>invocations = 3, sleeps = [2, 4], final_state = st_end\<rparr>)"
      by (rule structured_output_async_raises)
  qed
qed

lemma protocol_error_retryable: "is_Exception protocol_error \<and> is_retryable protocol_error"
  by (simp add: is_retryable_def protocol_error_def)

lemma stores_jane:
  "run_tools Persona_format Persona_dump rfc6902_op (tool_calls extracts_jane)
     \<lparr>current_extraction = None, existing_data_dump = None\<rparr> = has_jane"
  by (simp add: extracts_jane_def run_tool_def extraction_tool_def jane_def Persona_dump_def
      has_jane_def)

theorem two_failures_then_success_witness:
  "structured_output_async Persona_format Persona_dump rfc6902_op sonnet_4 None False
       ''Extraction'' (fails_then_succeeds 2) =
     (Inr (Persona 34 ''Jane'', (''Extraction'' @ ''/bedrock/'' @ sonnet_4,
           accumulate token_usage0 (Some usage_a))),
      \<lparr>invocations = 3, sleeps = [2, 4], final_state = has_jane\<rparr>)"
proof -
  have o: "outcome (fails_then_succeeds 2 0) = Raises protocol_error"
    "outcome (fails_then_succeeds 2 1) = Raises protocol_error"
    "outcome (fails_then_succeeds 2 2) = Responds (Some usage_a)"
    by (simp_all add: fails_then_succeeds_def drops_def extracts_jane_def)
  have s: "has_jane =
      run_tools Persona_format Persona_dump rfc6902_op (tool_calls (fails_then_succeeds 2 2))
        (run_tools Persona_format Persona_dump rfc6902_op (tool_calls (fails_then_succeeds 2 1))
          (run_tools Persona_format Persona_dump rfc6902_op (tool_calls (fails_then_succeeds 2 0))
            (initial_state Persona_dump None)))"
    by (simp add: fails_then_succeeds_def drops_def stores_jane initial_state_def)
  have v: "current_extraction has_jane = Some jane" "jane \<noteq> []"
    "Persona_format (JObj jane) = Inr (Persona 34 ''Jane'')"
    by (simp_all add: has_jane_def jane_def)
  from two_failures_then_success [where env = "fails_then_succeeds 2" and ea = protocol_error
      and eb = protocol_error and st_end = has_jane and data_format = Persona_format
      and model_dump = Persona_dump and op_apply = rfc6902_op and existing_data = None
      and m = "Some usage_a" and d = jane and r = "Persona 34 ''Jane''" and model_id = sonnet_4
      and review_agent = False and ctx = "''Extraction''"]
    o v s protocol_error_retryable
  show ?thesis by simp
qed

text \<open>
  C3 in the specification's wording (three failures, then a success) fails: after three
  consecutive transient failures the third attempt was the last, the exception is raised,
  and the successful call that would follow is never made.
\<close>

theorem three_failures_then_success_fails:
  "structured_output_async Persona_format Persona_dump rfc6902_op sonnet_4 None False
       ''Extraction'' (fails_then_succeeds 3) =
     (Inl (ValueError ''Agent invocation failed: Response ended prematurely''),
      \<lparr>invocations = 3, sleeps = [2, 4],
       final_state = \<lparr>current_extraction = None, existing_data_dump = None\<rparr>\<rparr>)"
  by code_simp







subsection \<open>The result of an invocation\<close>

lemma best_effort_Inr:
  assumes "best_effort model_id ctx result response tu = Inr (r, m)"
  shows "result = Some r \<and> m = (ctx @ ''/bedrock/'' @ model_id, tu) \<and> response \<noteq> None"
  using assms by (auto simp: best_effort_def split: option.splits)

lemma review_branch_result:
  assumes "review_branch df dump f env review tu tr = (Inr (Some r, tu'), tr')"
  shows "\<exists>d. current_extraction (final_state tr') = Some d \<and> df (JObj d) = Inr r"
  using assms
  by (auto simp: review_branch_def Let_def split: if_splits outcome.splits option.splits sum.splits)

lemma structured_output_async_Inr:
  assumes "structured_output_async df dump f model_id existing review ctx env = (Inr (r, m), tr)"
  shows "\<exists>d. current_extraction (final_state tr) = Some d \<and> df (JObj d) = Inr r"
proof -
  obtain res tr0 where loop: "retry_loop df dump f env 0 2 [] (initial_state dump existing) = (res, tr0)"
    by (cases "retry_loop df dump f env 0 2 [] (initial_state dump existing)") auto
  show ?thesis
  proof (cases res)
    case (Inl err)
    with loop assms show ?thesis by (simp add: structured_output_async_def)
  next
    case (Inr response)
    let ?tu = "case response of None \<Rightarrow> token_usage0 | Some m \<Rightarrow> accumulate token_usage0 m"
    show ?thesis
    proof (cases "truthy (current_extraction (final_state tr0))")
      case True
      then obtain d where d: "current_extraction (final_state tr0) = Some d" "d \<noteq> []"
        by (auto simp: truthy_def split: option.splits)
      with loop Inr assms show ?thesis
        by (auto simp: structured_output_async_def truthy_def dest!: best_effort_Inr
            split: sum.splits)
    next
      case False
      obtain rr tr1 where rb: "review_branch df dump f env review ?tu tr0 = (rr, tr1)"
        by (cases "review_branch df dump f env review ?tu tr0") auto
      from False loop Inr assms rb have "\<exists>tu'. rr = Inr (Some r, tu') \<and> tr1 = tr"
        by (auto simp: structured_output_async_def truthy_def dest!: best_effort_Inr
            split: sum.splits option.splits)
      with rb show ?thesis by (auto dest: review_branch_result)
    qed
  qed
qed

text \<open>
  C1. Every invocation ends with a typed error or with a record and its metering; a returned
  record is the schema's validation of the extraction stored at the end, so it is never
  partial or invalid; the metering has the key \<open>{context}/bedrock/{model_id}\<close>. When the
  extraction stored at the end (after the exchange and the optional review) is absent or
  does not validate, the invocation ends with an error.
\<close>

theorem structured_output_async_valid_or_error:
  assumes "structured_output_async data_format model_dump op_apply model_id existing_data
             review_agent ctx env = (res, tr)"
  shows "(case res of
            Inl err \<Rightarrow> True
          | Inr (r, m) \<Rightarrow>
              (\<exists>d. current_extraction (final_state tr) = Some d \<and> data_format (JObj d) = Inr r) \<and>
              fst m = ctx @ ''/bedrock/'' @ model_id) \<and>
         ((\<forall>d. current_extraction (final_state tr) = Some d \<longrightarrow> isl (data_format (JObj d))) \<longrightarrow>
            (\<exists>err. res = Inl err))"
proof -
  have valid: "\<exists>d. current_extraction (final_state tr) = Some d \<and> data_format (JObj d) = Inr r"
    if "res = Inr (r, m)" for r m
    using assms that by (auto dest: structured_output_async_Inr)
  have key: "fst m = ctx @ ''/bedrock/'' @ model_id" if "res = Inr (r, m)" for r m
    using assms that
    by (auto simp: structured_output_async_def Let_def dest!: best_effort_Inr
        split: prod.splits sum.splits option.splits if_splits)
  have err: "\<exists>err. res = Inl err"
    if none: "\<forall>d. current_extraction (final_state tr) = Some d \<longrightarrow> isl (data_format (JObj d))"
  proof (cases res)
    case (Inl err)
    then show ?thesis by simp
  next
    case (Inr rm)
    then obtain r m where "res = Inr (r, m)" by (cases rm) auto
    from valid [OF this] none show ?thesis by auto
  qed
  from valid key err show ?thesis by (auto split: sum.splits)
qed

lemma run_extracts_jane:
  "structured_output_async Persona_format Persona_dump rfc6902_op sonnet_4 None True
       ''Extraction'' (fails_then_succeeds 0) =
     (Inr (Persona 34 ''Jane'',
           (''Extraction/bedrock/us.anthropic.claude-sonnet-4-20250514-v1:0'',
            \<lparr>inputTokens = 100, outputTokens = 20, totalTokens = 120,
             cacheReadInputTokens = 0, cacheWriteInputTokens = 0\<rparr>)),
      \<lparr>invocations = 1, sleeps = [], final_state = has_jane\<rparr>)"
  by code_simp

lemma run_silent:
  "structured_output_async Persona_format Persona_dump rfc6902_op sonnet_4 None False
       ''Extraction'' (\<lambda>k. \<lparr>tool_calls = [], outcome = Responds (Some usage_a)\<rparr>) =
     (Inl (ValueError ''Failed to generate valid structured output.''),
      \<lparr>invocations = 1, sleeps = [],
       final_state = \<lparr>current_extraction = None, existing_data_dump = None\<rparr>\<rparr>)"
  by code_simp

theorem structured_output_async_valid_or_error_witness:
  "(\<exists>d. current_extraction has_jane = Some d \<and> Persona_format (JObj d) = Inr (Persona 34 ''Jane'')) \<and>
   (\<exists>err. fst (structured_output_async Persona_format Persona_dump rfc6902_op sonnet_4 None False
       ''Extraction'' (\<lambda>k. \<lparr>tool_calls = [], outcome = Responds (Some usage_a)\<rparr>)) = Inl err)"
proof -
  from structured_output_async_valid_or_error [OF run_extracts_jane]
  have a: "\<exists>d. current_extraction has_jane = Some d \<and> Persona_format (JObj d) = Inr (Persona 34 ''Jane'')"
    by simp
  from structured_output_async_valid_or_error [OF run_silent]
  have b: "\<exists>err. fst (structured_output_async Persona_format Persona_dump rfc6902_op sonnet_4 None False
       ''Extraction'' (\<lambda>k. \<lparr>tool_calls = [], outcome = Responds (Some usage_a)\<rparr>)) = Inl err"
    by (simp add: run_silent)
  from a b show ?thesis by simp
qed

text \<open>
  C7. The code does not run the review whenever it is requested. When the first exchange
  leaves a non-empty extraction, the review branch is not reached: the model is called once,
  and the invocation with \<open>review_agent\<close> set does exactly what it does without it. The
  branch that holds the review (lines 677-741) is the \<open>else\<close> of \<open>if current_extraction\<close>.
\<close>

theorem review_skipped_after_extraction:
  assumes "outcome (env 0) = Responds m"
    and "truthy (current_extraction (run_tools data_format model_dump op_apply (tool_calls (env 0))
                   (initial_state model_dump existing_data)))"
  shows "invocations (snd (structured_output_async data_format model_dump op_apply model_id
                             existing_data True ctx env)) = 1 \<and>
         structured_output_async data_format model_dump op_apply model_id existing_data True ctx env =
         structured_output_async data_format model_dump op_apply model_id existing_data False ctx env"
proof -
  have "retry_loop data_format model_dump op_apply env 0 2 [] (initial_state model_dump existing_data) =
      (Inr (Some m),
       \<lparr>invocations = 1, sleeps = [],
        final_state = run_tools data_format model_dump op_apply (tool_calls (env 0))
                        (initial_state model_dump existing_data)\<rparr>)"
    by (rule retry_loop_responds) (simp_all add: assms max_retries_def)
  with assms(2) show ?thesis
    by (auto simp: structured_output_async_def truthy_def split: option.splits sum.splits)
qed

theorem review_skipped_after_extraction_witness:
  "invocations (snd (structured_output_async Persona_format Persona_dump rfc6902_op sonnet_4
                       None True ''Extraction'' (fails_then_succeeds 0))) = 1 \<and>
   structured_output_async Persona_format Persona_dump rfc6902_op sonnet_4 None True
       ''Extraction'' (fails_then_succeeds 0) =
   structured_output_async Persona_format Persona_dump rfc6902_op sonnet_4 None False
       ''Extraction'' (fails_then_succeeds 0)"
proof -
  have o: "outcome (fails_then_succeeds 0 0) = Responds (Some usage_a)"
    by (simp add: fails_then_succeeds_def extracts_jane_def)
  have t: "truthy (current_extraction (run_tools Persona_format Persona_dump rfc6902_op
              (tool_calls (fails_then_succeeds 0 0)) (initial_state Persona_dump None)))"
    by (simp add: fails_then_succeeds_def initial_state_def stores_jane truthy_def has_jane_def
        jane_def)
  from review_skipped_after_extraction [where env = "fails_then_succeeds 0"
      and m = "Some usage_a" and data_format = Persona_format and model_dump = Persona_dump
      and op_apply = rfc6902_op and existing_data = None and model_id = sonnet_4
      and ctx = "''Extraction''", OF o t]
  show ?thesis .
qed

subsection \<open>Token accounting\<close>

lemma reported_empty: "reported (Some []) key = 0"
  by (simp add: reported_def get0_def)

lemma counters_accumulate:
  "counters (accumulate t m) = map2 (+) (counters t) (map (reported m) token_keys)"
  by (cases m)
    (simp_all add: accumulate_def add_usage_def counters_def token_keys_def reported_def get0_def)

lemma counters_foldl_accumulate:
  "counters (foldl accumulate t ms) =
     map2 (+) (counters t) (map (\<lambda>key. \<Sum>m\<leftarrow>ms. reported m key) token_keys)"
proof (induction ms arbitrary: t)
  case Nil
  show ?case by (simp add: counters_def token_keys_def)
next
  case (Cons m ms)
  have "counters (foldl accumulate (accumulate t m) ms) =
      map2 (+) (counters (accumulate t m)) (map (\<lambda>key. \<Sum>m\<leftarrow>ms. reported m key) token_keys)"
    by (rule Cons.IH)
  then show ?case
    by (simp add: counters_accumulate) (simp add: counters_def token_keys_def)
qed

lemma counters_token_usage0: "counters token_usage0 = [0, 0, 0, 0, 0]"
  by (simp add: counters_def token_usage0_def)

lemma accumulate_monotone:
  assumes "\<forall>key \<in> set token_keys. 0 \<le> reported m key"
  shows "list_all2 (\<le>) (counters t) (counters (accumulate t m))"
  using assms by (simp add: counters_accumulate) (simp add: counters_def token_keys_def)

lemma handed_over_Suc:
  "handed_over env (Suc n) =
     handed_over env n @ (case outcome (env n) of Responds m \<Rightarrow> [m] | Raises e \<Rightarrow> [])"
  by (simp add: handed_over_def)

lemma retry_loop_usages:
  assumes "retry_loop df dump f env attempt delay slept st = (Inr response, tr)"
    and "attempt < max_retries"
  shows "\<exists>m. response = Some m \<and> attempt < invocations tr \<and>
           concat (map (\<lambda>k. case outcome (env k) of Responds m \<Rightarrow> [m] | Raises e \<Rightarrow> [])
                     [attempt..<invocations tr]) = [m]"
  using assms
proof (induction df dump f env attempt delay slept st rule: retry_loop.induct)
  case (1 df dump f env attempt delay slept st)
  show ?case
  proof (cases "outcome (env attempt)")
    case (Responds m)
    with "1.prems" have "response = Some m" and "invocations tr = attempt + 1"
      by (auto simp: retry_loop_responds [where n = "attempt + 1"])
    with Responds show ?thesis by simp
  next
    case (Raises e)
    show ?thesis
    proof (cases "is_Exception e \<and> is_retryable e \<and> \<not> (attempt = max_retries - 1)")
      case True
      with "1.prems"(2) have lt: "attempt < max_retries - 1" and lt': "attempt + 1 < max_retries"
        by auto
      from True lt Raises "1.prems"(1)
      have "retry_loop df dump f env (attempt + 1) (delay * 2) (slept @ [delay])
              (run_tools df dump f (tool_calls (env attempt)) st) = (Inr response, tr)"
        by (simp add: retry_loop_retries [where e = e and n = "attempt + 1" and delay' = "delay * 2"])
      with "1.IH" "1.prems"(2) Raises True lt'
      obtain m where m: "response = Some m" "attempt + 1 < invocations tr"
        "concat (map (\<lambda>k. case outcome (env k) of Responds m \<Rightarrow> [m] | Raises e \<Rightarrow> [])
                     [attempt + 1..<invocations tr]) = [m]"
        by auto
      from m(2) have "[attempt..<invocations tr] = attempt # [attempt + 1..<invocations tr]"
        by (simp add: upt_conv_Cons)
      with m Raises show ?thesis by simp
    next
      case False
      with Raises "1.prems" show ?thesis
        by (auto simp: retry_loop_raises [where e = e and n = "attempt + 1"])
    qed
  qed
qed

lemma review_branch_usage:
  assumes "review_branch df dump f env review tu tr = (Inr (Some r, tu'), tr')"
  shows "\<exists>m. outcome (env (invocations tr)) = Responds m \<and> tu' = accumulate tu m \<and>
           invocations tr' = Suc (invocations tr)"
  using assms
  by (auto simp: review_branch_def Let_def split: if_splits outcome.splits option.splits sum.splits)

lemma structured_output_async_usage:
  assumes "structured_output_async df dump f model_id existing review ctx env = (Inr (r, key, tu), tr)"
  shows "tu = foldl accumulate token_usage0 (handed_over env (invocations tr))"
proof -
  obtain res tr0 where loop: "retry_loop df dump f env 0 2 [] (initial_state dump existing) = (res, tr0)"
    by (cases "retry_loop df dump f env 0 2 [] (initial_state dump existing)") auto
  show ?thesis
  proof (cases res)
    case (Inl err)
    with loop assms show ?thesis by (simp add: structured_output_async_def)
  next
    case (Inr response)
    with loop have l: "retry_loop df dump f env 0 2 [] (initial_state dump existing) = (Inr response, tr0)"
      by simp
    have "0 < max_retries" by (simp add: max_retries_def)
    from retry_loop_usages [OF l this]
    obtain m where m: "response = Some m" "handed_over env (invocations tr0) = [m]"
      by (auto simp: handed_over_def)
    show ?thesis
    proof (cases "truthy (current_extraction (final_state tr0))")
      case True
      then obtain d where d: "current_extraction (final_state tr0) = Some d" "d \<noteq> []"
        by (auto simp: truthy_def split: option.splits)
      with loop Inr m assms have "tu = accumulate token_usage0 m" and "tr = tr0"
        by (auto simp: structured_output_async_def truthy_def dest!: best_effort_Inr
            split: sum.splits)
      with m show ?thesis by simp
    next
      case False
      obtain rr tr1 where rb:
        "review_branch df dump f env review (accumulate token_usage0 m) tr0 = (rr, tr1)"
        by (cases "review_branch df dump f env review (accumulate token_usage0 m) tr0") auto
      from False loop Inr m assms rb have "rr = Inr (Some r, tu) \<and> tr1 = tr"
        by (auto simp: structured_output_async_def truthy_def dest!: best_effort_Inr
            split: sum.splits option.splits)
      with rb review_branch_usage [where env = env and tr = tr0 and tr' = tr and tu' = tu
          and tu = "accumulate token_usage0 m" and r = r and df = df and dump = dump and f = f
          and review = review]
      obtain m2 where "outcome (env (invocations tr0)) = Responds m2"
        "tu = accumulate (accumulate token_usage0 m) m2" "invocations tr = Suc (invocations tr0)"
        by auto
      with m show ?thesis by (simp add: handed_over_Suc)
    qed
  qed
qed

lemma cumulative_metrics_reported:
  assumes "cumulative_metrics env own n" and "k < n" and "outcome (env k) = Responds m"
    and "key \<in> set token_keys"
  shows "reported m key = (\<Sum>j\<leftarrow>[0..<Suc k]. get0 (own j) key)"
proof -
  from assms(1,2) have "case outcome (env k) of
      Raises e \<Rightarrow> True
    | Responds m \<Rightarrow>
        list_all (\<lambda>key. reported m key = (\<Sum>j\<leftarrow>[0..<Suc k]. get0 (own j) key)) token_keys"
    by (simp add: cumulative_metrics_def list_all_iff)
  with assms(3,4) show ?thesis by (simp add: list_all_iff)
qed

text \<open>
  C9. The code does not return the sum of the per-exchange usages once the review has run.
  The running total starts at zero and each step adds \<open>accumulated_usage.get(key, 0)\<close>, but
  the value a response hands over is the agent's running total, not the usage of its
  exchange. After a first exchange that consumed \<open>own 0\<close> and a review that consumed
  \<open>own 1\<close>, lines 720-725 add \<open>own 0 + own 1\<close> to a total that already holds \<open>own 0\<close>:
  every counter comes out as \<open>2 * own 0 + own 1\<close>, the first exchange counted twice.
\<close>

theorem review_usage_counted_twice:
  assumes "structured_output_async data_format model_dump op_apply model_id existing_data
             review_agent ctx env = (Inr (r, key, tu), tr)"
    and "outcome (env 0) = Responds ma" and "outcome (env 1) = Responds mb"
    and "invocations tr = 2"
    and "cumulative_metrics env own 2"
  shows "counters tu = map (\<lambda>key. 2 * get0 (own 0) key + get0 (own 1) key) token_keys"
proof -
  have a: "reported ma key = get0 (own 0) key" if "key \<in> set token_keys" for key
    using cumulative_metrics_reported [OF assms(5) _ assms(2) that] by simp
  have b: "reported mb key = get0 (own 0) key + get0 (own 1) key"
    if "key \<in> set token_keys" for key
    using cumulative_metrics_reported [OF assms(5) _ assms(3) that] by simp
  have "handed_over env 2 = [ma, mb]"
    using assms(2,3) by (simp add: handed_over_def numeral_2_eq_2)
  with structured_output_async_usage [OF assms(1)] assms(4)
  have "tu = foldl accumulate token_usage0 [ma, mb]" by simp
  then have "counters tu =
      map2 (+) (counters token_usage0) (map (\<lambda>key. \<Sum>m\<leftarrow>[ma, mb]. reported m key) token_keys)"
    by (simp only: counters_foldl_accumulate)
  then have "counters tu = map (\<lambda>key. reported ma key + reported mb key) token_keys"
    by (simp add: counters_token_usage0 token_keys_def)
  also have "\<dots> = map (\<lambda>key. 2 * get0 (own 0) key + get0 (own 1) key) token_keys"
    using a b by simp
  finally show ?thesis .
qed

lemma run_extracts_late:
  "structured_output_async Persona_format Persona_dump rfc6902_op sonnet_4 None True
       ''Extraction'' extracts_late =
     (Inr (Persona 34 ''Jane'',
           ''Extraction/bedrock/us.anthropic.claude-sonnet-4-20250514-v1:0'',
            \<lparr>inputTokens = 350, outputTokens = 45, totalTokens = 395,
             cacheReadInputTokens = 90, cacheWriteInputTokens = 0\<rparr>),
      \<lparr>invocations = 2, sleeps = [], final_state = has_jane\<rparr>)"
  by code_simp

lemma extracts_late_cumulative: "cumulative_metrics extracts_late own_late 2"
  by code_simp

theorem review_usage_counted_twice_witness:
  "counters \<lparr>inputTokens = 350, outputTokens = 45, totalTokens = 395,
             cacheReadInputTokens = 90, cacheWriteInputTokens = 0\<rparr> =
     map (\<lambda>key. 2 * get0 usage_a key + get0 usage_b key) token_keys \<and>
   map (\<lambda>key. 2 * get0 usage_a key + get0 usage_b key) token_keys \<noteq>
     map (\<lambda>key. get0 usage_a key + get0 usage_b key) token_keys"
proof -
  have o: "outcome (extracts_late 0) = Responds (Some usage_a)"
    "outcome (extracts_late 1) = Responds (Some usage_a_then_b)"
    by (simp_all add: extracts_late_def)
  have "counters \<lparr>inputTokens = 350, outputTokens = 45, totalTokens = 395,
                  cacheReadInputTokens = 90, cacheWriteInputTokens = 0\<rparr> =
      map (\<lambda>key. 2 * get0 (own_late 0) key + get0 (own_late 1) key) token_keys"
    using review_usage_counted_twice [where env = extracts_late and own = own_late
        and ma = "Some usage_a" and mb = "Some usage_a_then_b", OF run_extracts_late o _
        extracts_late_cumulative]
    by simp
  then have a: "counters \<lparr>inputTokens = 350, outputTokens = 45, totalTokens = 395,
                  cacheReadInputTokens = 90, cacheWriteInputTokens = 0\<rparr> =
      map (\<lambda>key. 2 * get0 usage_a key + get0 usage_b key) token_keys"
    by (simp add: own_late_def)
  have b: "map (\<lambda>key. 2 * get0 usage_a key + get0 usage_b key) token_keys \<noteq>
      map (\<lambda>key. get0 usage_a key + get0 usage_b key) token_keys"
    by (simp add: token_keys_def get0_def usage_a_def usage_b_def)
  from a b show ?thesis by simp
qed

end
